theory Spec2Isabelle
  imports Complex_Main "HOL-Library.AList"
begin

section \<open>Python values and exceptions\<close>

text \<open>
  The module is Python 2 code. Every exception it can raise is a constructor of
  \<open>error\<close>, and a call that may raise returns \<open>error + 'a\<close> with the exception on the
  left. The module defines no exception class of its own: its checks are \<open>assert\<close>
  statements, which raise \<open>AssertionError\<close>, and \<open>Key.__init__\<close> raises the builtin
  \<open>SyntaxError\<close> and \<open>NotImplementedError\<close>.
\<close>

datatype error =
    AssertionError
  | SyntaxError
  | NotImplementedError
  | NameError
  | AttributeError
  | KeyError
  | TypeError
  | ValueError
  | OverflowError
  | UnicodeDecodeError

text \<open>
  \<open>datetime.date\<close>, \<open>datetime.time\<close> and \<open>datetime.datetime\<close> objects by their fields
  (year, month, day; hour, minute, second, microsecond). Only naive values (no
  \<open>tzinfo\<close>) are modelled.
\<close>

datatype date = Date int int int

datatype time = Time int int int int

datatype datetime = DateTime int int int int int int int

text \<open>
  The values a property can hold. A Python 2 \<open>str\<close> is a byte string (\<open>string\<close>, a list
  of 8-bit characters) and a \<open>unicode\<close> is a list of code points. \<open>int\<close> and \<open>long\<close> are
  both unbounded and are one constructor. A \<open>float\<close> is given by the rational it denotes
  (infinities and NaN are not modelled).
\<close>

datatype pyval =
    PNone
  | PBool bool
  | PInt int
  | PFloat rat
  | PStr string
  | PUnicode "nat list"
  | PDateTime datetime
  | PDate date
  | PTime time

text \<open>\<open>isinstance\<close> tests of the module. \<open>bool\<close> is a subclass of \<open>int\<close>, and
  \<open>datetime.datetime\<close> is a subclass of \<open>datetime.date\<close>.\<close>

fun isinstance_bool :: "pyval \<Rightarrow> bool" where
  "isinstance_bool (PBool b) = True"
| "isinstance_bool v = False"

fun isinstance_int_long :: "pyval \<Rightarrow> bool" where
  "isinstance_int_long (PInt i) = True"
| "isinstance_int_long (PBool b) = True"
| "isinstance_int_long v = False"

fun isinstance_float :: "pyval \<Rightarrow> bool" where
  "isinstance_float (PFloat r) = True"
| "isinstance_float v = False"

fun isinstance_str :: "pyval \<Rightarrow> bool" where
  "isinstance_str (PStr s) = True"
| "isinstance_str v = False"

fun isinstance_unicode :: "pyval \<Rightarrow> bool" where
  "isinstance_unicode (PUnicode u) = True"
| "isinstance_unicode v = False"

definition isinstance_basestring :: "pyval \<Rightarrow> bool" where
  "isinstance_basestring v = (isinstance_str v \<or> isinstance_unicode v)"

fun isinstance_datetime :: "pyval \<Rightarrow> bool" where
  "isinstance_datetime (PDateTime d) = True"
| "isinstance_datetime v = False"

fun isinstance_date :: "pyval \<Rightarrow> bool" where
  "isinstance_date (PDate d) = True"
| "isinstance_date (PDateTime d) = True"
| "isinstance_date v = False"

fun isinstance_time :: "pyval \<Rightarrow> bool" where
  "isinstance_time (PTime t) = True"
| "isinstance_time v = False"

section \<open>Key\<close>

text \<open>
  A path element is the dict \<open>{'kind': kind, 'id': _id}\<close> or
  \<open>{'kind': kind, 'name': _id}\<close> that \<open>Key.__init__\<close> appends.
\<close>

type_synonym segment = "string \<rightharpoonup> pyval"

text \<open>
  Modelled from the spec: the base class \<open>gcloud.datastore.key.Key\<close> is not part of the
  source file. Its constructor is called as
  \<open>super(Key, self).__init__(path, namespace=namespace, dataset_id=app)\<close>; by the spec a
  key is its ordered path together with an optional namespace and an optional owning
  dataset/app identifier attached to the whole path.
\<close>

record key =
  k_path :: "segment list"
  k_namespace :: "string option"
  k_dataset_id :: "string option"

text \<open>The keyword arguments \<open>Key.__init__\<close> reads with \<open>kwargs.get\<close>; \<open>None\<close> when the
  keyword is not given.\<close>

record key_kwargs =
  kw_app :: "string option"
  kw_namespace :: "string option"
  kw_pairs :: "(pyval \<times> pyval) list option"
  kw_flat :: "pyval list option"
  kw_urlsafe :: "string option"
  kw_path :: "segment list option"

text \<open>Truth value of an optional sequence: \<open>None\<close> and the empty sequence are false.\<close>

fun truthy :: "'a list option \<Rightarrow> bool" where
  "truthy None = False"
| "truthy (Some []) = False"
| "truthy (Some (x # xs)) = True"

text \<open>\<open>range(0, n, 2)\<close>.\<close>

definition range_step2 :: "nat \<Rightarrow> nat list" where
  "range_step2 n = map (\<lambda>j. 2 * j) [0 ..< (n + 1) div 2]"

text \<open>\<open>[(flat[i], flat[i+1]) for i in range(0, len(flat), 2)]\<close>; the source reaches it
  only after the assertion that \<open>len(flat)\<close> is even, so both indices are in range.\<close>

definition flat_pairs :: "'a list \<Rightarrow> ('a \<times> 'a) list" where
  "flat_pairs flat = map (\<lambda>i. (flat ! i, flat ! (i + 1))) (range_step2 (length flat))"

text \<open>The loop \<open>for kind, _id in pairs\<close> with the path built so far.\<close>

fun build_path :: "(pyval \<times> pyval) list \<Rightarrow> segment list \<Rightarrow> error + segment list" where
  "build_path [] path = Inr path"
| "build_path ((kind, ident) # pairs) path =
     (if isinstance_int_long ident
      then build_path pairs (path @ [[''kind'' \<mapsto> kind, ''id'' \<mapsto> ident]])
      else if isinstance_basestring ident
      then build_path pairs (path @ [[''kind'' \<mapsto> kind, ''name'' \<mapsto> ident]])
      else Inl SyntaxError)"

text \<open>\<open>Key.__init__(self, *args, **kwargs)\<close>.\<close>

definition Key_init :: "pyval list \<Rightarrow> key_kwargs \<Rightarrow> error + key" where
  "Key_init args kwargs =
     (if truthy (kw_urlsafe kwargs) then Inl NotImplementedError
      else if \<not> truthy (kw_path kwargs) then
        (case (if \<not> truthy (kw_pairs kwargs) then
                 (let flat = (if \<not> truthy (kw_flat kwargs) then args
                              else (case kw_flat kwargs of Some f \<Rightarrow> f | None \<Rightarrow> args))
                  in if length flat mod 2 = 0 then Inr (flat_pairs flat)
                     else Inl AssertionError)
               else (case kw_pairs kwargs of Some ps \<Rightarrow> Inr ps | None \<Rightarrow> Inr []))
         of Inl e \<Rightarrow> Inl e
          | Inr pairs \<Rightarrow>
             (case build_path pairs [] of
                Inl e \<Rightarrow> Inl e
              | Inr p \<Rightarrow> Inr \<lparr>k_path = p, k_namespace = kw_namespace kwargs,
                               k_dataset_id = kw_app kwargs\<rparr>))
      else (case kw_path kwargs of
              Some p \<Rightarrow> Inr \<lparr>k_path = p, k_namespace = kw_namespace kwargs,
                             k_dataset_id = kw_app kwargs\<rparr>
            | None \<Rightarrow> Inr \<lparr>k_path = [], k_namespace = kw_namespace kwargs,
                            k_dataset_id = kw_app kwargs\<rparr>))"

text \<open>A call that passes only \<open>app\<close> and \<open>namespace\<close> (possibly \<open>None\<close>) as keywords.\<close>

definition positional_only :: "string option \<Rightarrow> string option \<Rightarrow> key_kwargs" where
  "positional_only app ns =
     \<lparr>kw_app = app, kw_namespace = ns, kw_pairs = None, kw_flat = None,
      kw_urlsafe = None, kw_path = None\<rparr>"

text \<open>The list of (kind, identifier) pairs a flattened sequence stands for, in the
  spec's words: consecutive elements taken two at a time.\<close>

fun pairs_of_flat :: "'a list \<Rightarrow> ('a \<times> 'a) list" where
  "pairs_of_flat (k # i # rest) = (k, i) # pairs_of_flat rest"
| "pairs_of_flat [k] = []"
| "pairs_of_flat [] = []"

section \<open>Libraries and module globals\<close>

text \<open>
  The library functions the module calls. They belong to the Python installation, not
  to the repository, so they are parameters: \<open>zlib.compress\<close>, \<open>zlib.decompress\<close>,
  \<open>pickle.dumps\<close>, \<open>pickle.loads\<close>, \<open>json.dumps\<close>, \<open>json.loads\<close>,
  \<open>str.decode('utf-8')\<close>, \<open>float\<close> on an integer, and the clock
  \<open>datetime.datetime.utcnow\<close>, whose \<open>n\<close>-th reading is \<open>utcnow L n\<close>.
\<close>

record libs =
  zlib_compress :: "pyval \<Rightarrow> error + pyval"
  zlib_decompress :: "pyval \<Rightarrow> error + pyval"
  pickle_dumps :: "pyval \<Rightarrow> error + pyval"
  pickle_loads :: "pyval \<Rightarrow> error + pyval"
  json_dumps :: "pyval \<Rightarrow> error + pyval"
  json_loads :: "pyval \<Rightarrow> error + pyval"
  decode_utf8 :: "string \<Rightarrow> error + nat list"
  float_of_int :: "int \<Rightarrow> error + rat"
  utcnow :: "nat \<Rightarrow> datetime"

text \<open>
  The names bound in the module's global namespace: the names its \<open>import\<close> statements
  bind (lines 1 to 8 of the source) and the names it defines. A name that is neither
  here nor a builtin raises \<open>NameError\<close> when it is evaluated.
\<close>

definition module_globals :: "string list" where
  "module_globals =
     [''datastore'', ''entity'', ''key'', ''json'', ''datetime'',
      ''Key'', ''dataset'', ''Property'', ''BooleanProperty'', ''IntegerProperty'',
      ''FloatProperty'', ''BlobProperty'', ''TextProperty'', ''StringProperty'',
      ''PickleProperty'', ''JsonProperty'', ''DateTimeProperty'', ''DateProperty'',
      ''TimeProperty'', ''MetaModel'', ''Model'', ''get_multi'']"

definition bound_global :: "string \<Rightarrow> bool" where
  "bound_global n = (n \<in> set module_globals)"

section \<open>Property\<close>

text \<open>The classes of the property hierarchy; a property object carries its class.\<close>

datatype property_class =
    Property
  | BooleanProperty
  | IntegerProperty
  | FloatProperty
  | BlobProperty
  | TextProperty
  | StringProperty
  | PickleProperty
  | JsonProperty
  | DateTimeProperty
  | DateProperty
  | TimeProperty

text \<open>
  The attributes of a property object (\<open>_name\<close>, \<open>_indexed\<close>, ...). \<open>_compressed\<close> exists
  on the classes derived from \<open>BlobProperty\<close>, \<open>_schema\<close> on \<open>JsonProperty\<close>, the two
  \<open>_auto\<close> flags on the classes derived from \<open>DateTimeProperty\<close>; on the other classes the
  fields hold a placeholder that no method of those classes reads. A custom validator
  is called as \<open>self._validator(self, value)\<close>; the field is that call with \<open>self\<close> bound.
\<close>

record property =
  p_class :: property_class
  p_name :: "string option"
  p_indexed :: bool
  p_repeated :: bool
  p_required :: bool
  p_default :: pyval
  p_choices :: "pyval list option"
  p_validator :: "(pyval \<Rightarrow> error + pyval) option"
  p_compressed :: bool
  p_schema :: pyval
  p_auto_now_add :: bool
  p_auto_now :: bool

text \<open>Keyword arguments of the constructors; \<open>None\<close> when the keyword is not given, so
  that the parameter's default applies.\<close>

record property_kwargs =
  kw_name :: "string option"
  kw_indexed :: "bool option"
  kw_repeated :: "bool option"
  kw_required :: "bool option"
  kw_default :: "pyval option"
  kw_choices :: "pyval list option"
  kw_validator :: "(pyval \<Rightarrow> error + pyval) option"

record blob_kwargs = property_kwargs +
  kw_compressed :: "bool option"

record json_kwargs = blob_kwargs +
  kw_schema :: "pyval option"

record datetime_kwargs = property_kwargs +
  kw_auto_now_add :: "bool option"
  kw_auto_now :: "bool option"

definition arg_or :: "'a \<Rightarrow> 'a option \<Rightarrow> 'a" where
  "arg_or d a = (case a of None \<Rightarrow> d | Some x \<Rightarrow> x)"

text \<open>\<open>Property.__init__\<close>; \<open>c\<close> is the class being instantiated.\<close>

definition Property_init :: "property_class \<Rightarrow> 'a property_kwargs_scheme \<Rightarrow> property" where
  "Property_init c kw =
     \<lparr>p_class = c,
      p_name = kw_name kw,
      p_indexed = arg_or True (kw_indexed kw),
      p_repeated = arg_or False (kw_repeated kw),
      p_required = arg_or False (kw_required kw),
      p_default = arg_or PNone (kw_default kw),
      p_choices = kw_choices kw,
      p_validator = kw_validator kw,
      p_compressed = False,
      p_schema = PNone,
      p_auto_now_add = False,
      p_auto_now = False\<rparr>"

text \<open>\<open>BlobProperty.__init__\<close>: the assertion runs after the base constructor.\<close>

definition BlobProperty_init :: "property_class \<Rightarrow> 'a blob_kwargs_scheme \<Rightarrow> error + property" where
  "BlobProperty_init c kw =
     (let self = (Property_init c kw)\<lparr>p_compressed := arg_or False (kw_compressed kw)\<rparr>
      in if arg_or False (kw_compressed kw) \<and> p_indexed self then Inl AssertionError
         else Inr self)"

text \<open>\<open>TextProperty.__init__\<close> (\<open>indexed=False\<close> by default) and
  \<open>StringProperty.__init__\<close> (\<open>indexed=True\<close> by default).\<close>

definition TextProperty_init :: "property_class \<Rightarrow> 'a blob_kwargs_scheme \<Rightarrow> error + property" where
  "TextProperty_init c kw =
     BlobProperty_init c (kw\<lparr>kw_indexed := Some (arg_or False (kw_indexed kw))\<rparr>)"

definition StringProperty_init :: "'a blob_kwargs_scheme \<Rightarrow> error + property" where
  "StringProperty_init kw =
     TextProperty_init StringProperty (kw\<lparr>kw_indexed := Some (arg_or True (kw_indexed kw))\<rparr>)"

definition JsonProperty_init :: "'a json_kwargs_scheme \<Rightarrow> error + property" where
  "JsonProperty_init kw =
     (case BlobProperty_init JsonProperty kw of
        Inl e \<Rightarrow> Inl e
      | Inr self \<Rightarrow> Inr (self\<lparr>p_schema := arg_or PNone (kw_schema kw)\<rparr>))"

text \<open>\<open>DateTimeProperty.__init__\<close>: the assertion runs before the base constructor.\<close>

definition DateTimeProperty_init ::
    "property_class \<Rightarrow> 'a datetime_kwargs_scheme \<Rightarrow> error + property" where
  "DateTimeProperty_init c kw =
     (if (arg_or False (kw_auto_now_add kw) \<or> arg_or False (kw_auto_now kw))
         \<and> arg_or False (kw_repeated kw)
      then Inl AssertionError
      else Inr ((Property_init c kw)
                  \<lparr>p_auto_now_add := arg_or False (kw_auto_now_add kw),
                   p_auto_now := arg_or False (kw_auto_now kw)\<rparr>))"

subsection \<open>Equality and membership\<close>

text \<open>
  \<open>==\<close> on the modelled values: numbers compare by their numeric value across \<open>bool\<close>,
  \<open>int\<close> and \<open>float\<close>; a \<open>str\<close> equals a \<open>unicode\<close> when it is ASCII and has the same
  characters; a \<open>date\<close> never equals a \<open>datetime\<close>; values of unrelated types are
  unequal.
\<close>

fun numeric :: "pyval \<Rightarrow> rat option" where
  "numeric (PBool b) = Some (if b then 1 else 0)"
| "numeric (PInt i) = Some (of_int i)"
| "numeric (PFloat r) = Some r"
| "numeric v = None"

definition ascii_text :: "string \<Rightarrow> nat list \<Rightarrow> bool" where
  "ascii_text s u = (list_all (\<lambda>c. (of_char c :: nat) < 128) s \<and> map of_char s = u)"

definition py_eq :: "pyval \<Rightarrow> pyval \<Rightarrow> bool" where
  "py_eq a b =
     (case (a, b) of
        (PStr s, PUnicode u) \<Rightarrow> ascii_text s u
      | (PUnicode u, PStr s) \<Rightarrow> ascii_text s u
      | (x, y) \<Rightarrow>
         (case (numeric a, numeric b) of
            (Some p, Some q) \<Rightarrow> p = q
          | (p, q) \<Rightarrow> a = b))"

text \<open>\<open>value in choices\<close> for a list of choices.\<close>

definition py_in :: "pyval \<Rightarrow> pyval list \<Rightarrow> bool" where
  "py_in v cs = list_ex (\<lambda>c. py_eq c v) cs"

subsection \<open>The validation and conversion pipeline\<close>

text \<open>\<open>int(value)\<close> and \<open>float(value)\<close> on a value that passed the \<open>isinstance\<close> test.\<close>

fun py_int :: "pyval \<Rightarrow> pyval" where
  "py_int (PBool b) = PInt (if b then 1 else 0)"
| "py_int v = v"

fun py_float :: "libs \<Rightarrow> pyval \<Rightarrow> error + pyval" where
  "py_float L (PBool b) = Inr (PFloat (if b then 1 else 0))"
| "py_float L (PInt i) =
     (case float_of_int L i of Inl e \<Rightarrow> Inl e | Inr r \<Rightarrow> Inr (PFloat r))"
| "py_float L v = Inr v"

text \<open>\<open>TextProperty._validate\<close>.\<close>

fun Text_validate :: "libs \<Rightarrow> pyval \<Rightarrow> error + pyval" where
  "Text_validate L (PStr s) =
     (case decode_utf8 L s of Inl e \<Rightarrow> Inl e | Inr u \<Rightarrow> Inr (PUnicode u))"
| "Text_validate L (PUnicode u) = Inr (PUnicode u)"
| "Text_validate L v = Inl AssertionError"

text \<open>\<open>_validate\<close>, by the class that defines or inherits it.\<close>

definition priv_validate :: "libs \<Rightarrow> property \<Rightarrow> pyval \<Rightarrow> error + pyval" where
  "priv_validate L self v =
     (case p_class self of
        Property \<Rightarrow> Inr v
      | BooleanProperty \<Rightarrow> if isinstance_bool v then Inr v else Inl AssertionError
      | IntegerProperty \<Rightarrow>
          if isinstance_int_long v then Inr (py_int v) else Inl AssertionError
      | FloatProperty \<Rightarrow>
          if isinstance_int_long v \<or> isinstance_float v then py_float L v
          else Inl AssertionError
      | BlobProperty \<Rightarrow> if isinstance_str v then Inr v else Inl AssertionError
      | TextProperty \<Rightarrow> Text_validate L v
      | StringProperty \<Rightarrow> Text_validate L v
      | PickleProperty \<Rightarrow> Inr v
      | JsonProperty \<Rightarrow> Inr v
      | DateTimeProperty \<Rightarrow> if isinstance_datetime v then Inr v else Inl AssertionError
      | DateProperty \<Rightarrow> if isinstance_date v then Inr v else Inl AssertionError
      | TimeProperty \<Rightarrow> if isinstance_time v then Inr v else Inl AssertionError)"

text \<open>
  \<open>Property.validate\<close>. The first assertion is the choice-set test. The second is
  \<open>assert not (self._required and not value is None)\<close>, where \<open>not value is None\<close> is
  \<open>value is not None\<close>. The result of \<open>_validate\<close> is bound to \<open>v\<close> and not used again.
\<close>

definition validate :: "libs \<Rightarrow> property \<Rightarrow> pyval \<Rightarrow> error + pyval" where
  "validate L self v =
     (if (case p_choices self of None \<Rightarrow> False | Some cs \<Rightarrow> \<not> py_in v cs)
      then Inl AssertionError
      else if p_required self \<and> v \<noteq> PNone then Inl AssertionError
      else if v = PNone then Inr PNone
      else (case priv_validate L self v of
              Inl e \<Rightarrow> Inl e
            | Inr v' \<Rightarrow>
               (case p_validator self of
                  Some f \<Rightarrow> f v
                | None \<Rightarrow> Inr v)))"

text \<open>\<open>BlobProperty._to_base_type\<close> and \<open>BlobProperty._from_base_type\<close>. The module
  never imports \<open>zlib\<close>. None of the modelled values has an attribute \<open>z_val\<close>.\<close>

definition Blob_to_base_type :: "libs \<Rightarrow> property \<Rightarrow> pyval \<Rightarrow> error + pyval" where
  "Blob_to_base_type L self v =
     (if p_compressed self then
        (if bound_global ''zlib'' then zlib_compress L v else Inl NameError)
      else Inr v)"

definition Blob_from_base_type :: "libs \<Rightarrow> property \<Rightarrow> pyval \<Rightarrow> error + pyval" where
  "Blob_from_base_type L self v =
     (if p_compressed self then
        (if bound_global ''zlib'' then Inl AttributeError else Inl NameError)
      else Inr v)"

text \<open>\<open>DateProperty._to_base_type\<close>, \<open>TimeProperty._to_base_type\<close> and the two
  \<open>_from_base_type\<close>: they read \<open>value.year\<close>, \<open>value.hour\<close>, ..., or call \<open>value.date()\<close>,
  \<open>value.time()\<close>, which a value of another type does not have.\<close>

fun Date_to_base_type :: "pyval \<Rightarrow> error + pyval" where
  "Date_to_base_type (PDate (Date y m d)) = Inr (PDateTime (DateTime y m d 0 0 0 0))"
| "Date_to_base_type (PDateTime (DateTime y m d h mi s us)) =
     Inr (PDateTime (DateTime y m d 0 0 0 0))"
| "Date_to_base_type v = Inl AttributeError"

fun Date_from_base_type :: "pyval \<Rightarrow> error + pyval" where
  "Date_from_base_type (PDateTime (DateTime y m d h mi s us)) = Inr (PDate (Date y m d))"
| "Date_from_base_type v = Inl AttributeError"

fun Time_to_base_type :: "pyval \<Rightarrow> error + pyval" where
  "Time_to_base_type (PTime (Time h mi s us)) = Inr (PDateTime (DateTime 1970 1 1 h mi s us))"
| "Time_to_base_type (PDateTime (DateTime y m d h mi s us)) =
     Inr (PDateTime (DateTime 1970 1 1 h mi s us))"
| "Time_to_base_type v = Inl AttributeError"

fun Time_from_base_type :: "pyval \<Rightarrow> error + pyval" where
  "Time_from_base_type (PDateTime (DateTime y m d h mi s us)) = Inr (PTime (Time h mi s us))"
| "Time_from_base_type v = Inl AttributeError"

text \<open>\<open>TextProperty._to_base_type\<close>, \<open>_from_base_type\<close> (which returns \<open>None\<close> for a value
  that is neither \<open>str\<close> nor \<open>unicode\<close>) and \<open>_from_db_value\<close>.\<close>

fun Text_to_base_type :: "libs \<Rightarrow> pyval \<Rightarrow> error + pyval" where
  "Text_to_base_type L (PStr s) =
     (case decode_utf8 L s of Inl e \<Rightarrow> Inl e | Inr u \<Rightarrow> Inr (PUnicode u))"
| "Text_to_base_type L v = Inr v"

fun Text_from_base_type :: "libs \<Rightarrow> pyval \<Rightarrow> error + pyval" where
  "Text_from_base_type L (PStr s) =
     (case decode_utf8 L s of Inl e \<Rightarrow> Inl e | Inr u \<Rightarrow> Inr (PUnicode u))"
| "Text_from_base_type L (PUnicode u) = Inr (PUnicode u)"
| "Text_from_base_type L v = Inr PNone"

text \<open>\<open>_to_base_type\<close> and \<open>_from_base_type\<close>, by the class that defines or inherits
  them. The module never imports \<open>pickle\<close>; \<open>json\<close> is imported.\<close>

definition priv_to_base_type :: "libs \<Rightarrow> property \<Rightarrow> pyval \<Rightarrow> error + pyval" where
  "priv_to_base_type L self v =
     (case p_class self of
        Property \<Rightarrow> Inr v
      | BooleanProperty \<Rightarrow> Inr v
      | IntegerProperty \<Rightarrow> Inr v
      | FloatProperty \<Rightarrow> Inr v
      | BlobProperty \<Rightarrow> Blob_to_base_type L self v
      | TextProperty \<Rightarrow> Text_to_base_type L v
      | StringProperty \<Rightarrow> Text_to_base_type L v
      | PickleProperty \<Rightarrow>
          (if bound_global ''pickle'' then
             (case pickle_dumps L v of
                Inl e \<Rightarrow> Inl e
              | Inr s \<Rightarrow> Blob_to_base_type L self s)
           else Inl NameError)
      | JsonProperty \<Rightarrow>
          (case json_dumps L v of
             Inl e \<Rightarrow> Inl e
           | Inr s \<Rightarrow> Blob_to_base_type L self s)
      | DateTimeProperty \<Rightarrow> Inr v
      | DateProperty \<Rightarrow> Date_to_base_type v
      | TimeProperty \<Rightarrow> Time_to_base_type v)"

definition priv_from_base_type :: "libs \<Rightarrow> property \<Rightarrow> pyval \<Rightarrow> error + pyval" where
  "priv_from_base_type L self v =
     (case p_class self of
        Property \<Rightarrow> Inr v
      | BooleanProperty \<Rightarrow> Inr v
      | IntegerProperty \<Rightarrow> Inr v
      | FloatProperty \<Rightarrow> Inr v
      | BlobProperty \<Rightarrow> Blob_from_base_type L self v
      | TextProperty \<Rightarrow> Text_from_base_type L v
      | StringProperty \<Rightarrow> Text_from_base_type L v
      | PickleProperty \<Rightarrow>
          (if bound_global ''pickle'' then
             (case Blob_from_base_type L self v of
                Inl e \<Rightarrow> Inl e
              | Inr s \<Rightarrow> pickle_loads L s)
           else Inl NameError)
      | JsonProperty \<Rightarrow>
          (case Blob_from_base_type L self v of
             Inl e \<Rightarrow> Inl e
           | Inr s \<Rightarrow> json_loads L s)
      | DateTimeProperty \<Rightarrow> Inr v
      | DateProperty \<Rightarrow> Date_from_base_type v
      | TimeProperty \<Rightarrow> Time_from_base_type v)"

text \<open>\<open>Property.to_base_type\<close> and \<open>Property.from_base_type\<close>; no class overrides them.\<close>

definition to_base_type :: "libs \<Rightarrow> property \<Rightarrow> pyval \<Rightarrow> error + pyval" where
  "to_base_type L self v = (if v = PNone then Inr v else priv_to_base_type L self v)"

definition from_base_type :: "libs \<Rightarrow> property \<Rightarrow> pyval \<Rightarrow> error + pyval" where
  "from_base_type L self v = (if v = PNone then Inr v else priv_from_base_type L self v)"

text \<open>\<open>from_db_value\<close>, which calls \<open>_from_db_value\<close>; only \<open>TextProperty\<close> overrides it.\<close>

fun Text_from_db_value :: "libs \<Rightarrow> pyval \<Rightarrow> error + pyval" where
  "Text_from_db_value L (PStr s) =
     (case decode_utf8 L s of Inl e \<Rightarrow> Inl e | Inr u \<Rightarrow> Inr (PUnicode u))"
| "Text_from_db_value L v = Inr v"

definition from_db_value :: "libs \<Rightarrow> property \<Rightarrow> pyval \<Rightarrow> error + pyval" where
  "from_db_value L self v =
     (if p_class self = TextProperty \<or> p_class self = StringProperty
      then Text_from_db_value L v else Inr v)"

text \<open>\<open>Property._fix_up\<close>.\<close>

definition fix_up :: "property \<Rightarrow> string \<Rightarrow> property" where
  "fix_up self n = (if p_name self = None then self\<lparr>p_name := Some n\<rparr> else self)"

section \<open>Model\<close>

text \<open>
  A model class: its \<open>__name__\<close>, the Property-valued entries of its \<open>__dict__\<close> (attribute
  name and property object, in the order the dict iterates) and the schema
  \<open>_properties\<close> that \<open>_fix_up_properties\<close> builds, a dict from storage name to property
  (an association list updated as a dict is).
\<close>

record model_class =
  cls_name :: string
  cls_dict :: "(string \<times> property) list"
  cls_properties :: "(string option \<times> property) list"

text \<open>
  Modelled from the spec: the base class \<open>gcloud.datastore.entity.Entity\<close> is not part of
  the source file. By the spec a model instance is an owning key (absent until fetched
  or assigned) plus a mapping from property storage name to raw stored value; the code
  uses it as a dict (\<open>instance.get\<close>, \<open>instance[name] = ...\<close>) with the attribute \<open>_key\<close>.
  The record holds the instance's class, its \<open>_key\<close>, the items of the dict and the
  other attributes found on the instance.
\<close>

record model =
  m_class :: model_class
  m_key :: "key option"
  m_items :: "string option \<rightharpoonup> pyval"
  m_attrs :: "string \<rightharpoonup> pyval"

text \<open>
  Modelled from the spec: a raw entity, as the storage collaborator produces it, is a
  mapping from storage name to raw value plus an associated key (\<open>entity.key()\<close>,
  \<open>entity.get(name)\<close>).
\<close>

record entity =
  e_key :: key
  e_items :: "string option \<rightharpoonup> pyval"

text \<open>
  Modelled from the spec: the collaborators that are not in the source file. \<open>dataset\<close>
  is the module global of that name (\<open>None\<close> until the application binds it) with its
  operation \<open>get_entities\<close>, the spec's \<open>fetchEntities\<close>; \<open>Key_kind\<close> is \<open>key.Key.kind\<close>, the
  kind of a stored record's key; \<open>Key_from_path\<close> is \<open>Key.from_path\<close>.
\<close>

record collaborators =
  dataset :: "(key list \<Rightarrow> entity option list) option"
  Key_kind :: "key \<Rightarrow> string"
  Key_from_path :: "string \<Rightarrow> pyval \<Rightarrow> key"

text \<open>\<open>dict.get(name)\<close>: \<open>None\<close> for a missing key.\<close>

definition dict_get :: "('k \<rightharpoonup> pyval) \<Rightarrow> 'k \<Rightarrow> pyval" where
  "dict_get d k = (case d k of None \<Rightarrow> PNone | Some v \<Rightarrow> v)"

text \<open>\<open>Property.__get__\<close> and \<open>Property.__set__\<close>.\<close>

definition Property_get :: "libs \<Rightarrow> property \<Rightarrow> model \<Rightarrow> error + pyval" where
  "Property_get L self instance = from_base_type L self (dict_get (m_items instance) (p_name self))"

definition Property_set :: "libs \<Rightarrow> property \<Rightarrow> model \<Rightarrow> pyval \<Rightarrow> error + model" where
  "Property_set L self instance v =
     (case validate L self v of
        Inl e \<Rightarrow> Inl e
      | Inr v' \<Rightarrow>
         (case to_base_type L self v' of
            Inl e \<Rightarrow> Inl e
          | Inr b \<Rightarrow> Inr (instance\<lparr>m_items := (m_items instance)(p_name self \<mapsto> b)\<rparr>)))"

text \<open>
  \<open>getattr(instance, n)\<close> and \<open>setattr(instance, n, v)\<close>. A property is a data
  descriptor (it defines \<open>__get__\<close> and \<open>__set__\<close>), so a property found under \<open>n\<close> in the
  class takes the access; otherwise the instance's own attributes are read or written.
\<close>

definition getattr :: "libs \<Rightarrow> model \<Rightarrow> string \<Rightarrow> error + pyval" where
  "getattr L instance n =
     (case map_of (cls_dict (m_class instance)) n of
        Some prop \<Rightarrow> Property_get L prop instance
      | None \<Rightarrow>
         (case m_attrs instance n of
            Some v \<Rightarrow> Inr v
          | None \<Rightarrow> Inl AttributeError))"

definition setattr :: "libs \<Rightarrow> model \<Rightarrow> string \<Rightarrow> pyval \<Rightarrow> error + model" where
  "setattr L instance n v =
     (case map_of (cls_dict (m_class instance)) n of
        Some prop \<Rightarrow> Property_set L prop instance v
      | None \<Rightarrow> Inr (instance\<lparr>m_attrs := (m_attrs instance)(n \<mapsto> v)\<rparr>))"

text \<open>\<open>_now\<close>: \<open>DateProperty\<close> overrides it, \<open>TimeProperty\<close> inherits
  \<open>DateTimeProperty._now\<close>. The argument \<open>t\<close> counts the clock readings taken so far.\<close>

fun date_of :: "datetime \<Rightarrow> date" where
  "date_of (DateTime y m d h mi s us) = Date y m d"

definition priv_now :: "libs \<Rightarrow> property \<Rightarrow> nat \<Rightarrow> pyval" where
  "priv_now L self t =
     (if p_class self = DateProperty then PDate (date_of (utcnow L t))
      else PDateTime (utcnow L t))"

text \<open>
  \<open>_prepare_for_put\<close>: \<open>pass\<close> on \<open>Property\<close>, overridden by \<open>DateTimeProperty\<close> and
  inherited by \<open>DateProperty\<close> and \<open>TimeProperty\<close>. The state is the number of clock
  readings taken and the instance. \<open>getattr(entity, self._name)\<close> with \<open>_name\<close> still
  \<open>None\<close> raises \<open>TypeError\<close>.
\<close>

definition auto_stamp ::
    "libs \<Rightarrow> property \<Rightarrow> string \<Rightarrow> nat \<times> model \<Rightarrow> error + nat \<times> model" where
  "auto_stamp L self n s =
     (case setattr L (snd s) n (priv_now L self (fst s)) of
        Inl e \<Rightarrow> Inl e
      | Inr instance \<Rightarrow> Inr (Suc (fst s), instance))"

definition priv_prepare_for_put ::
    "libs \<Rightarrow> property \<Rightarrow> nat \<times> model \<Rightarrow> error + nat \<times> model" where
  "priv_prepare_for_put L self s =
     (if p_class self = DateTimeProperty \<or> p_class self = DateProperty
         \<or> p_class self = TimeProperty
      then
        (case p_name self of
           None \<Rightarrow> Inl TypeError
         | Some n \<Rightarrow>
            (case getattr L (snd s) n of
               Inl e \<Rightarrow> Inl e
             | Inr v \<Rightarrow>
                (case (if v = PNone \<and> p_auto_now_add self then auto_stamp L self n s
                       else Inr s) of
                   Inl e \<Rightarrow> Inl e
                 | Inr s1 \<Rightarrow>
                    if p_auto_now self then auto_stamp L self n s1 else Inr s1)))
      else Inr s)"

text \<open>\<open>Model._fix_up_properties\<close>, run by \<open>MetaModel.__init__\<close> when a class is declared:
  the fixed-up class and the kind map with the class registered under its name.\<close>

definition fix_up_properties ::
    "(string \<rightharpoonup> model_class) \<Rightarrow> string \<Rightarrow> (string \<times> property) list
      \<Rightarrow> model_class \<times> (string \<rightharpoonup> model_class)" where
  "fix_up_properties kind_map cname classdict =
     (let attrs = map (\<lambda>(n, attr). (n, fix_up attr n)) classdict;
          cls = \<lparr>cls_name = cname, cls_dict = attrs,
                 cls_properties =
                   foldl (\<lambda>props (n, attr). AList.update (p_name attr) attr props) [] attrs\<rparr>
      in (cls, kind_map(cname \<mapsto> cls)))"

text \<open>\<open>Model._lookup_model\<close>: \<open>cls._kind_map[kind]\<close>.\<close>

definition lookup_model :: "(string \<rightharpoonup> model_class) \<Rightarrow> string \<Rightarrow> error + model_class" where
  "lookup_model kind_map kind =
     (case kind_map kind of None \<Rightarrow> Inl KeyError | Some cls \<Rightarrow> Inr cls)"

text \<open>
  \<open>Model.from_entity\<close>. \<open>cls()\<close> runs \<open>Model.__init__\<close> with no identifier and no field
  values, that is only \<open>Entity.__init__\<close>: an instance with an empty dict, whose key is
  replaced at once by the entity's. The loop stores into the dict directly
  (\<open>obj[name] = ...\<close>), not through the descriptors.
\<close>

fun from_entity_loop ::
    "libs \<Rightarrow> model_class \<Rightarrow> entity \<Rightarrow> string option list \<Rightarrow> model \<Rightarrow> error + model" where
  "from_entity_loop L cls e [] obj = Inr obj"
| "from_entity_loop L cls e (n # names) obj =
     (case map_of (cls_properties cls) n of
        None \<Rightarrow> Inl KeyError
      | Some prop \<Rightarrow>
         (case from_db_value L prop (dict_get (e_items e) n) of
            Inl err \<Rightarrow> Inl err
          | Inr v \<Rightarrow>
             from_entity_loop L cls e names (obj\<lparr>m_items := (m_items obj)(n \<mapsto> v)\<rparr>)))"

definition from_entity :: "libs \<Rightarrow> model_class \<Rightarrow> entity \<Rightarrow> error + model" where
  "from_entity L cls e =
     from_entity_loop L cls e (map fst (cls_properties cls))
       \<lparr>m_class = cls, m_key = Some (e_key e), m_items = Map.empty, m_attrs = Map.empty\<rparr>"

text \<open>\<open>Model.get_multi\<close> (the classmethod): the loop over the fetched entities, with
  the results appended so far.\<close>

fun Model_get_multi_loop ::
    "libs \<Rightarrow> model_class \<Rightarrow> entity option list \<Rightarrow> model option list
      \<Rightarrow> error + model option list" where
  "Model_get_multi_loop L cls [] results = Inr results"
| "Model_get_multi_loop L cls (None # entities) results =
     Model_get_multi_loop L cls entities (results @ [None])"
| "Model_get_multi_loop L cls (Some e # entities) results =
     (case from_entity L cls e of
        Inl err \<Rightarrow> Inl err
      | Inr obj \<Rightarrow> Model_get_multi_loop L cls entities (results @ [Some obj]))"

definition Model_get_multi ::
    "libs \<Rightarrow> collaborators \<Rightarrow> model_class \<Rightarrow> pyval list \<Rightarrow> error + model option list" where
  "Model_get_multi L X cls ids =
     (case dataset X of
        None \<Rightarrow> Inl AttributeError
      | Some get_entities \<Rightarrow>
         Model_get_multi_loop L cls
           (get_entities (map (\<lambda>i. Key_from_path X (cls_name cls) i) ids)) [])"

text \<open>
  The module-level \<open>get_multi\<close>. For an entity that is \<open>None\<close> the loop body appends
  \<open>None\<close> and then goes on to \<open>entity.key()\<close>, which raises \<open>AttributeError\<close> on \<open>None\<close>:
  the \<open>if\<close> has no \<open>else\<close> and no \<open>continue\<close>.
\<close>

fun get_multi_loop ::
    "libs \<Rightarrow> collaborators \<Rightarrow> (string \<rightharpoonup> model_class) \<Rightarrow> entity option list
      \<Rightarrow> model option list \<Rightarrow> error + model option list" where
  "get_multi_loop L X kind_map [] results = Inr results"
| "get_multi_loop L X kind_map (e # entities) results =
     (let results1 = (if e = None then results @ [None] else results)
      in case e of
           None \<Rightarrow> Inl AttributeError
         | Some ent \<Rightarrow>
            (case lookup_model kind_map (Key_kind X (e_key ent)) of
               Inl err \<Rightarrow> Inl err
             | Inr cls \<Rightarrow>
                (case from_entity L cls ent of
                   Inl err \<Rightarrow> Inl err
                 | Inr obj \<Rightarrow>
                    get_multi_loop L X kind_map entities (results1 @ [Some obj]))))"

definition get_multi ::
    "libs \<Rightarrow> collaborators \<Rightarrow> (string \<rightharpoonup> model_class) \<Rightarrow> key list
      \<Rightarrow> error + model option list" where
  "get_multi L X kind_map keys =
     (case dataset X of
        None \<Rightarrow> Inl AttributeError
      | Some get_entities \<Rightarrow> get_multi_loop L X kind_map (get_entities keys) [])"

section \<open>Example declarations\<close>

text \<open>
  Concrete inputs for the closed theorems below. \<open>example_libs\<close> is a stand-in Python
  installation: its codecs pass their argument through, UTF-8 decoding maps every byte
  to the code point of the same number, and the \<open>n\<close>-th clock reading is
  2014-06-01 12:00 plus \<open>n\<close> seconds.
\<close>

definition example_libs :: libs where
  "example_libs =
     \<lparr>zlib_compress = (\<lambda>v. Inr v), zlib_decompress = (\<lambda>v. Inr v),
      pickle_dumps = (\<lambda>v. Inr v), pickle_loads = (\<lambda>v. Inr v),
      json_dumps = (\<lambda>v. Inr v), json_loads = (\<lambda>v. Inr v),
      decode_utf8 = (\<lambda>s. Inr (map of_char s)),
      float_of_int = (\<lambda>i. Inr (of_int i)),
      utcnow = (\<lambda>n. DateTime 2014 6 1 12 0 (int n) 0)\<rparr>"

text \<open>
  The class
  \<^verbatim>\<open>
  class Article(Model):
      created = DateTimeProperty(auto_now_add=True)
      updated = DateTimeProperty(auto_now=True)
      launch = DateTimeProperty(auto_now_add=True,
                                choices=[datetime.datetime(2000, 1, 1)])
      rating = IntegerProperty(default=5, choices=[1, 2, 3, 4, 5])
  \<close>
  with each property as it is after the class has been declared (its \<open>_name\<close> set).
\<close>

definition no_kwargs :: datetime_kwargs where
  "no_kwargs =
     \<lparr>kw_name = None, kw_indexed = None, kw_repeated = None, kw_required = None,
      kw_default = None, kw_choices = None, kw_validator = None,
      kw_auto_now_add = None, kw_auto_now = None\<rparr>"

definition created_prop :: property where
  "created_prop =
     \<lparr>p_class = DateTimeProperty, p_name = Some ''created'', p_indexed = True,
      p_repeated = False, p_required = False, p_default = PNone, p_choices = None,
      p_validator = None, p_compressed = False, p_schema = PNone,
      p_auto_now_add = True, p_auto_now = False\<rparr>"

definition updated_prop :: property where
  "updated_prop =
     created_prop\<lparr>p_name := Some ''updated'', p_auto_now_add := False, p_auto_now := True\<rparr>"

definition launch_prop :: property where
  "launch_prop =
     created_prop\<lparr>p_name := Some ''launch'',
                   p_choices := Some [PDateTime (DateTime 2000 1 1 0 0 0 0)]\<rparr>"

definition rating_prop :: property where
  "rating_prop =
     \<lparr>p_class = IntegerProperty, p_name = Some ''rating'', p_indexed = True,
      p_repeated = False, p_required = False, p_default = PInt 5,
      p_choices = Some [PInt 1, PInt 2, PInt 3, PInt 4, PInt 5],
      p_validator = None, p_compressed = False, p_schema = PNone,
      p_auto_now_add = False, p_auto_now = False\<rparr>"

definition Article :: model_class where
  "Article =
     fst (fix_up_properties Map.empty ''Article''
            [(''created'', created_prop\<lparr>p_name := None\<rparr>),
             (''updated'', updated_prop\<lparr>p_name := None\<rparr>),
             (''launch'', launch_prop\<lparr>p_name := None\<rparr>),
             (''rating'', rating_prop\<lparr>p_name := None\<rparr>)])"

text \<open>\<open>Article()\<close>: an instance none of whose fields has been set.\<close>

definition new_article :: model where
  "new_article =
     \<lparr>m_class = Article, m_key = None, m_items = Map.empty, m_attrs = Map.empty\<rparr>"

text \<open>The instance \<open>obj\<close> with the raw value \<open>ts\<close> stored under the storage name \<open>n\<close>.\<close>

definition stamped :: "model \<Rightarrow> string \<Rightarrow> pyval \<Rightarrow> model" where
  "stamped obj n ts = obj\<lparr>m_items := (m_items obj)(Some n \<mapsto> ts)\<rparr>"

text \<open>
  The class
  \<^verbatim>\<open>
  class Event(Model):
      started = DateTimeProperty(name='start_ts', auto_now_add=True)
      logged = DateTimeProperty(auto_now_add=True, required=True)
      alarm = TimeProperty(auto_now=True)
  \<close>
  with each property as it is after the class has been declared: \<open>started\<close> keeps the
  storage name it was given, the other two get their attribute names.
\<close>

definition started_prop :: property where
  "started_prop = created_prop\<lparr>p_name := Some ''start_ts''\<rparr>"

definition logged_prop :: property where
  "logged_prop = created_prop\<lparr>p_name := Some ''logged'', p_required := True\<rparr>"

definition alarm_prop :: property where
  "alarm_prop =
     created_prop\<lparr>p_class := TimeProperty, p_name := Some ''alarm'',
                   p_auto_now_add := False, p_auto_now := True\<rparr>"

definition Event :: model_class where
  "Event =
     fst (fix_up_properties Map.empty ''Event''
            [(''started'', started_prop),
             (''logged'', logged_prop\<lparr>p_name := None\<rparr>),
             (''alarm'', alarm_prop\<lparr>p_name := None\<rparr>)])"

text \<open>\<open>Event()\<close>: an instance none of whose fields has been set.\<close>

definition new_event :: model where
  "new_event =
     \<lparr>m_class = Event, m_key = None, m_items = Map.empty, m_attrs = Map.empty\<rparr>"

text \<open>A raw \<open>Article\<close> entity with id 7 that stores only \<open>rating\<close>, and the instance
  \<open>Article.from_entity\<close> builds from it.\<close>

definition example_entity :: entity where
  "example_entity =
     \<lparr>e_key = \<lparr>k_path = [[''kind'' \<mapsto> PStr ''Article'', ''id'' \<mapsto> PInt 7]],
               k_namespace = None, k_dataset_id = None\<rparr>,
      e_items = [Some ''rating'' \<mapsto> PInt 4]\<rparr>"

definition example_obj :: model where
  "example_obj =
     \<lparr>m_class = Article, m_key = Some (e_key example_entity),
      m_items = [Some ''created'' \<mapsto> PNone, Some ''updated'' \<mapsto> PNone,
                 Some ''launch'' \<mapsto> PNone, Some ''rating'' \<mapsto> PInt 4],
      m_attrs = Map.empty\<rparr>"

text \<open>
  Stand-in collaborators: the kind of a key is the \<open>'kind'\<close> of its last path element,
  \<open>from_path\<close> builds a one-element path, and the dataset answers every request with
  the given list of slots.
\<close>

definition example_kind :: "key \<Rightarrow> string" where
  "example_kind k =
     (case k_path k of
        [] \<Rightarrow> []
      | seg # segs \<Rightarrow>
         (case last (seg # segs) ''kind'' of Some (PStr s) \<Rightarrow> s | other \<Rightarrow> []))"

definition example_store :: "entity option list \<Rightarrow> collaborators" where
  "example_store slots =
     \<lparr>dataset = Some (\<lambda>keys. slots),
      Key_kind = example_kind,
      Key_from_path = (\<lambda>kind i. \<lparr>k_path = [[''kind'' \<mapsto> PStr kind, ''id'' \<mapsto> i]],
                                  k_namespace = None, k_dataset_id = None\<rparr>)\<rparr>"

section \<open>Properties stated in the spec's words\<close>

text \<open>\<open>P.from_base_type(P.to_base_type(v))\<close>, failing where either step raises.\<close>

definition round_trip :: "libs \<Rightarrow> property \<Rightarrow> pyval \<Rightarrow> error + pyval" where
  "round_trip L self v =
     (case to_base_type L self v of Inl e \<Rightarrow> Inl e | Inr b \<Rightarrow> from_base_type L self b)"

text \<open>A result slot of the per-kind batch fetch mirrors its raw entity: absent for an
  absent entity, and otherwise the instance \<open>from_entity\<close> builds from it.\<close>

definition slot_matches ::
    "libs \<Rightarrow> model_class \<Rightarrow> entity option \<Rightarrow> model option \<Rightarrow> bool" where
  "slot_matches L cls e r =
     (case e of
        None \<Rightarrow> r = None
      | Some ent \<Rightarrow>
         (case r of None \<Rightarrow> False | Some obj \<Rightarrow> from_entity L cls ent = Inr obj))"

text \<open>A result slot of the cross-kind batch fetch is typed: the raw entity is present,
  its kind is registered, and the slot holds the instance of the registered class that
  \<open>from_entity\<close> builds from it.\<close>

definition typed_slot ::
    "libs \<Rightarrow> collaborators \<Rightarrow> (string \<rightharpoonup> model_class) \<Rightarrow> entity option \<Rightarrow> model option
      \<Rightarrow> bool" where
  "typed_slot L X kind_map e r =
     (case e of
        None \<Rightarrow> False
      | Some ent \<Rightarrow>
         (case kind_map (Key_kind X (e_key ent)) of
            None \<Rightarrow> False
          | Some cls \<Rightarrow>
             (case r of
                None \<Rightarrow> False
              | Some obj \<Rightarrow> from_entity L cls ent = Inr obj \<and> m_class obj = cls)))"

section \<open>Auxiliary facts\<close>

lemma truthy_Some: "truthy (Some xs) = (xs \<noteq> [])"
  by (cases xs) simp_all

lemma range_step2_Suc_Suc:
  "range_step2 (Suc (Suc n)) = 0 # map (\<lambda>i. i + 2) (range_step2 n)"
  unfolding range_step2_def
  by (simp add: upt_conv_Cons map_Suc_upt[symmetric] del: upt_Suc)

text \<open>On a sequence of even length the list comprehension of the source yields the
  pairs of consecutive elements.\<close>

lemma flat_pairs_eq: "even (length xs) \<Longrightarrow> flat_pairs xs = pairs_of_flat xs"
proof (induction xs rule: pairs_of_flat.induct)
  case (1 k i rest)
  then show ?case by (simp add: flat_pairs_def range_step2_Suc_Suc comp_def)
next
  case (2 k)
  then show ?case by simp
next
  case 3
  then show ?case by (simp add: flat_pairs_def range_step2_def)
qed

lemma pairs_of_flat_Nil: "even (length xs) \<Longrightarrow> pairs_of_flat xs = [] \<Longrightarrow> xs = []"
  by (induction xs rule: pairs_of_flat.induct) simp_all

lemma zlib_unbound: "\<not> bound_global ''zlib''"
  by (simp add: bound_global_def module_globals_def)

lemma pickle_unbound: "\<not> bound_global ''pickle''"
  by (simp add: bound_global_def module_globals_def)

lemma py_eq_None: "py_eq c PNone = (c = PNone)"
  by (cases c) (simp_all add: py_eq_def)

lemma py_in_None: "py_in PNone cs = (PNone \<in> set cs)"
  by (induction cs) (simp_all add: py_in_def py_eq_None eq_commute)

lemma Article_eq:
  "Article = \<lparr>cls_name = ''Article'',
     cls_dict = [(''created'', created_prop), (''updated'', updated_prop),
                 (''launch'', launch_prop), (''rating'', rating_prop)],
     cls_properties = [(Some ''created'', created_prop), (Some ''updated'', updated_prop),
                       (Some ''launch'', launch_prop), (Some ''rating'', rating_prop)]\<rparr>"
  by (simp add: Article_def fix_up_properties_def Let_def fix_up_def created_prop_def
      updated_prop_def launch_prop_def rating_prop_def)

lemma cls_dict_Article:
  "map_of (cls_dict (m_class new_article)) ''created'' = Some created_prop"
  "map_of (cls_dict (m_class new_article)) ''updated'' = Some updated_prop"
  "map_of (cls_dict (m_class new_article)) ''launch'' = Some launch_prop"
  "map_of (cls_dict (m_class new_article)) ''rating'' = Some rating_prop"
  by (simp_all add: new_article_def Article_eq)

lemma stamped_twice: "stamped (stamped obj n a) n b = stamped obj n b"
  by (simp add: stamped_def)

lemma stamped_class: "m_class (stamped obj n a) = m_class obj"
  by (simp add: stamped_def)

lemma stamped_get: "dict_get (m_items (stamped obj n a)) (Some n) = a"
  by (simp add: stamped_def dict_get_def)

text \<open>A \<open>DateTimeProperty\<close> with no choice set, not required and with no custom
  validator accepts every \<open>datetime\<close> and stores it as it is.\<close>

lemma validate_plain_datetime:
  assumes "p_class self = DateTimeProperty" "p_choices self = None" "\<not> p_required self"
    "p_validator self = None"
  shows "validate L self (PDateTime ts) = Inr (PDateTime ts)"
  using assms by (simp add: validate_def priv_validate_def)

lemma Property_set_plain_datetime:
  assumes "p_class self = DateTimeProperty" "p_choices self = None" "\<not> p_required self"
    "p_validator self = None" "p_name self = Some n"
  shows "Property_set L self obj (PDateTime ts) = Inr (stamped obj n (PDateTime ts))"
  using assms
  by (simp add: Property_set_def validate_plain_datetime to_base_type_def priv_to_base_type_def
      stamped_def)

lemma auto_stamp_plain_datetime:
  assumes "p_class self = DateTimeProperty" "p_choices self = None" "\<not> p_required self"
    "p_validator self = None" "p_name self = Some n"
    "map_of (cls_dict (m_class obj)) n = Some self"
  shows "auto_stamp L self n (t, obj) = Inr (Suc t, stamped obj n (PDateTime (utcnow L t)))"
  using assms
  by (simp add: auto_stamp_def setattr_def priv_now_def Property_set_plain_datetime)

lemma getattr_plain_datetime:
  assumes "p_class self = DateTimeProperty" "p_name self = Some n"
    "map_of (cls_dict (m_class obj)) n = Some self"
  shows "getattr L obj n = Inr (dict_get (m_items obj) (Some n))"
  using assms
  by (simp add: getattr_def Property_get_def from_base_type_def priv_from_base_type_def)

lemma Event_eq:
  "Event = \<lparr>cls_name = ''Event'',
     cls_dict = [(''started'', started_prop), (''logged'', logged_prop),
                 (''alarm'', alarm_prop)],
     cls_properties = [(Some ''start_ts'', started_prop), (Some ''logged'', logged_prop),
                       (Some ''alarm'', alarm_prop)]\<rparr>"
  by (simp add: Event_def fix_up_properties_def Let_def fix_up_def started_prop_def
      logged_prop_def alarm_prop_def created_prop_def)

text \<open>The properties of \<open>Event\<close> are what the constructors build: none of the three
  configurations is refused.\<close>

lemma Event_properties_constructed:
  "DateTimeProperty_init DateTimeProperty
     (no_kwargs\<lparr>kw_name := Some ''start_ts'', kw_auto_now_add := Some True\<rparr>)
   = Inr started_prop"
  "DateTimeProperty_init DateTimeProperty
     (no_kwargs\<lparr>kw_auto_now_add := Some True, kw_required := Some True\<rparr>)
   = Inr (logged_prop\<lparr>p_name := None\<rparr>)"
  "DateTimeProperty_init TimeProperty (no_kwargs\<lparr>kw_auto_now := Some True\<rparr>)
   = Inr (alarm_prop\<lparr>p_name := None\<rparr>)"
  by (simp_all add: DateTimeProperty_init_def Property_init_def no_kwargs_def started_prop_def
      logged_prop_def alarm_prop_def created_prop_def arg_or_def)

text \<open>The property \<open>launch\<close> of \<open>Article\<close> is what the constructor builds.\<close>

lemma launch_constructed:
  "DateTimeProperty_init DateTimeProperty
     (no_kwargs\<lparr>kw_auto_now_add := Some True,
                 kw_choices := Some [PDateTime (DateTime 2000 1 1 0 0 0 0)]\<rparr>)
   = Inr (launch_prop\<lparr>p_name := None\<rparr>)"
  by (simp add: DateTimeProperty_init_def Property_init_def no_kwargs_def launch_prop_def
      created_prop_def arg_or_def)

lemma from_entity_example: "from_entity example_libs Article example_entity = Inr example_obj"
  by (simp add: from_entity_def Article_eq from_db_value_def dict_get_def example_entity_def
      example_obj_def created_prop_def updated_prop_def launch_prop_def rating_prop_def)

text \<open>\<open>from_entity\<close> builds an instance of the class it is called on.\<close>

lemma from_entity_loop_class:
  "from_entity_loop L cls e ns obj = Inr r \<Longrightarrow> m_class r = m_class obj"
proof (induction ns arbitrary: obj)
  case Nil
  then show ?case by simp
next
  case (Cons n ns)
  from Cons.prems obtain v where
    "from_entity_loop L cls e ns (obj\<lparr>m_items := (m_items obj)(n \<mapsto> v)\<rparr>) = Inr r"
    by (auto split: option.splits sum.splits)
  from Cons.IH [OF this] show ?case by simp
qed

lemma from_entity_class: "from_entity L cls e = Inr obj \<Longrightarrow> m_class obj = cls"
  by (auto simp: from_entity_def dest: from_entity_loop_class)

lemma slot_matches_None: "slot_matches L cls None r = (r = None)"
  by (simp add: slot_matches_def)

lemma slot_matches_Some:
  "slot_matches L cls (Some ent) r = (\<exists>obj. r = Some obj \<and> from_entity L cls ent = Inr obj)"
  by (cases r) (simp_all add: slot_matches_def)

text \<open>The loop of \<open>Model.get_multi\<close> returns exactly the lists that extend the results so
  far by one matching slot per fetched entity.\<close>

lemma Model_get_multi_loop_iff:
  "Model_get_multi_loop L cls es rs = Inr out
     \<longleftrightarrow> (\<exists>new. out = rs @ new \<and> list_all2 (slot_matches L cls) es new)"
proof (induction es arbitrary: rs)
  case Nil
  then show ?case by auto
next
  case (Cons e es)
  show ?case
  proof (cases e)
    case None
    then show ?thesis
      by (auto simp: Cons.IH list_all2_Cons1 slot_matches_None)
  next
    case (Some ent)
    then show ?thesis
      by (cases "from_entity L cls ent")
        (auto simp: Cons.IH list_all2_Cons1 slot_matches_Some)
  qed
qed

lemma typed_slot_None: "\<not> typed_slot L X km None r"
  by (simp add: typed_slot_def)

lemma typed_slot_Some:
  "typed_slot L X km (Some ent) r =
     (\<exists>cls obj. lookup_model km (Key_kind X (e_key ent)) = Inr cls
        \<and> from_entity L cls ent = Inr obj \<and> r = Some obj)"
  by (cases r; cases "km (Key_kind X (e_key ent))")
    (auto simp: typed_slot_def lookup_model_def dest: from_entity_class)

text \<open>The loop of the module-level \<open>get_multi\<close> returns exactly the lists that extend the
  results so far by one typed slot per fetched entity; an absent entity has no typed
  slot, so the loop raises on it.\<close>

lemma get_multi_loop_iff:
  "get_multi_loop L X km es rs = Inr out
     \<longleftrightarrow> (\<exists>new. out = rs @ new \<and> list_all2 (typed_slot L X km) es new)"
proof (induction es arbitrary: rs)
  case Nil
  then show ?case by auto
next
  case (Cons e es)
  show ?case
  proof (cases e)
    case None
    then show ?thesis
      by (auto simp: list_all2_Cons1 typed_slot_None)
  next
    case (Some ent)
    show ?thesis
    proof (cases "lookup_model km (Key_kind X (e_key ent))")
      case (Inl err)
      with Some show ?thesis by (auto simp: list_all2_Cons1 typed_slot_Some)
    next
      case (Inr cls)
      with Some show ?thesis
        by (cases "from_entity L cls ent")
          (auto simp: Cons.IH list_all2_Cons1 typed_slot_Some)
    qed
  qed
qed

section \<open>Key construction\<close>

text \<open>
  Claim C6. A \<open>Key\<close> built from a flattened sequence of odd length is refused: the
  constructor raises the \<open>AssertionError\<close> of \<open>assert len(flat) % 2 == 0\<close> (the spec's
  MalformedKeyError) and no key is built, whether the sequence is given as positional
  arguments or as the keyword \<open>flat\<close>.
\<close>

theorem Key_init_odd_flat:
  assumes "odd (length flat)"
  shows "Key_init flat (positional_only app ns) = Inl AssertionError
       \<and> Key_init [] ((positional_only app ns)\<lparr>kw_flat := Some flat\<rparr>) = Inl AssertionError"
proof -
  from assms have ne: "flat \<noteq> []" by auto
  from assms have m: "length flat mod 2 \<noteq> 0" by presburger
  from ne m show ?thesis
    by (simp add: Key_init_def positional_only_def truthy_Some)
qed

theorem Key_init_odd_flat_witness:
  "odd (length [PStr ''Person'', PInt 1, PStr ''Address''])
   \<and> Key_init [PStr ''Person'', PInt 1, PStr ''Address''] (positional_only None None)
       = Inl AssertionError"
proof -
  have h: "odd (length [PStr ''Person'', PInt 1, PStr ''Address''])" by simp
  from h Key_init_odd_flat [OF h, of None None] show ?thesis by blast
qed

text \<open>
  Claim C8. For a flattened sequence of even length, \<open>Key(*flat)\<close> and
  \<open>Key(pairs=...)\<close> on the pairs of consecutive elements of \<open>flat\<close> give the same result:
  the same key (path, namespace and dataset) or the same exception.
\<close>

theorem Key_flat_same_as_pairs:
  assumes "even (length flat)"
  shows "Key_init flat (positional_only app ns)
       = Key_init [] ((positional_only app ns)\<lparr>kw_pairs := Some (pairs_of_flat flat)\<rparr>)"
proof (cases "pairs_of_flat flat = []")
  case True
  with assms have "flat = []" by (simp add: pairs_of_flat_Nil)
  then show ?thesis
    by (simp add: Key_init_def positional_only_def split: sum.split)
next
  case False
  from assms have m: "length flat mod 2 = 0" by presburger
  from False m assms show ?thesis
    by (simp add: Key_init_def positional_only_def flat_pairs_eq truthy_Some split: sum.split)
qed

text \<open>The spec's example: \<open>Key("Person", 1, "Address", "home")\<close> and
  \<open>Key(pairs=[("Person", 1), ("Address", "home")])\<close>.\<close>

theorem Key_flat_same_as_pairs_witness:
  "even (length [PStr ''Person'', PInt 1, PStr ''Address'', PStr ''home''])
   \<and> Key_init [PStr ''Person'', PInt 1, PStr ''Address'', PStr ''home'']
        (positional_only None None)
     = Key_init [] ((positional_only None None)
         \<lparr>kw_pairs := Some [(PStr ''Person'', PInt 1), (PStr ''Address'', PStr ''home'')]\<rparr>)
   \<and> Key_init [] ((positional_only None None)
         \<lparr>kw_pairs := Some [(PStr ''Person'', PInt 1), (PStr ''Address'', PStr ''home'')]\<rparr>)
     = Inr \<lparr>k_path = [[''kind'' \<mapsto> PStr ''Person'', ''id'' \<mapsto> PInt 1],
                       [''kind'' \<mapsto> PStr ''Address'', ''name'' \<mapsto> PStr ''home'']],
            k_namespace = None, k_dataset_id = None\<rparr>"
proof -
  have h: "even (length [PStr ''Person'', PInt 1, PStr ''Address'', PStr ''home''])" by simp
  have r: "Key_init [] ((positional_only None None)
         \<lparr>kw_pairs := Some [(PStr ''Person'', PInt 1), (PStr ''Address'', PStr ''home'')]\<rparr>)
     = Inr \<lparr>k_path = [[''kind'' \<mapsto> PStr ''Person'', ''id'' \<mapsto> PInt 1],
                       [''kind'' \<mapsto> PStr ''Address'', ''name'' \<mapsto> PStr ''home'']],
            k_namespace = None, k_dataset_id = None\<rparr>"
    by (simp add: Key_init_def positional_only_def isinstance_basestring_def)
  from h r Key_flat_same_as_pairs [OF h, of None None] show ?thesis by simp
qed

section \<open>Property configuration\<close>

text \<open>
  Claim C7. Contradictory configuration is refused when the property is constructed,
  with the \<open>AssertionError\<close> of the constructor's \<open>assert\<close> (the spec's ConfigError):
  a blob property that is both compressed and indexed, and a date-time property with
  \<open>auto_now_add\<close> or \<open>auto_now\<close> together with \<open>repeated\<close>. The other keyword arguments
  and the class \<open>c\<close> being instantiated (\<open>BlobProperty\<close>, \<open>DateTimeProperty\<close> or a class
  that inherits the constructor) are arbitrary.
\<close>

theorem contradictory_configuration:
  "BlobProperty_init c (kw\<lparr>kw_compressed := Some True, kw_indexed := Some True\<rparr>)
     = Inl AssertionError
   \<and> DateTimeProperty_init c (kw'\<lparr>kw_auto_now_add := Some True, kw_repeated := Some True\<rparr>)
     = Inl AssertionError
   \<and> DateTimeProperty_init c (kw'\<lparr>kw_auto_now := Some True, kw_repeated := Some True\<rparr>)
     = Inl AssertionError"
  by (simp add: BlobProperty_init_def DateTimeProperty_init_def Property_init_def arg_or_def)

section \<open>Validation\<close>

text \<open>
  Claim C1. The code does not do what the claim says. The required-ness assertion is
  inverted: on a property constructed with \<open>required=True\<close> (and no choice set)
  \<open>validate(None)\<close> returns \<open>None\<close> instead of raising, and \<open>validate\<close> of a present
  value (here any integer) raises \<open>AssertionError\<close>.
\<close>

theorem required_accepts_None_rejects_present:
  "validate L (self\<lparr>p_required := True, p_choices := None\<rparr>) PNone = Inr PNone
   \<and> validate L (self\<lparr>p_required := True\<rparr>) (PInt i) = Inl AssertionError"
  by (simp add: validate_def)

text \<open>
  Claim C10. On a property whose choice set does not contain \<open>None\<close>, \<open>validate(None)\<close>
  raises (the choice-set assertion runs before the \<open>None\<close> short-circuit), whether or not
  the property is required, and so assigning \<open>None\<close> through \<open>__set__\<close> raises as well
  and stores nothing.
\<close>

theorem choices_without_None_reject_None:
  assumes "p_choices self = Some cs" and "PNone \<notin> set cs"
  shows "validate L self PNone = Inl AssertionError
       \<and> Property_set L self obj PNone = Inl AssertionError"
  using assms by (simp add: validate_def Property_set_def py_in_None)

theorem choices_without_None_reject_None_witness:
  "p_choices rating_prop = Some [PInt 1, PInt 2, PInt 3, PInt 4, PInt 5]
   \<and> PNone \<notin> set [PInt 1, PInt 2, PInt 3, PInt 4, PInt 5]
   \<and> \<not> p_required rating_prop
   \<and> validate example_libs rating_prop PNone = Inl AssertionError
   \<and> Property_set example_libs rating_prop new_article PNone = Inl AssertionError"
proof -
  have c: "p_choices rating_prop = Some [PInt 1, PInt 2, PInt 3, PInt 4, PInt 5]"
    by (simp add: rating_prop_def)
  have n: "PNone \<notin> set [PInt 1, PInt 2, PInt 3, PInt 4, PInt 5]" by simp
  have r: "\<not> p_required rating_prop" by (simp add: rating_prop_def)
  from c n r choices_without_None_reject_None [OF c n, of example_libs new_article]
  show ?thesis by blast
qed

section \<open>Conversion to and from the base type\<close>

text \<open>
  Claim C4. For every property, of every class and configuration, \<open>to_base_type(None)\<close>
  and \<open>from_base_type(None)\<close> return \<open>None\<close>.
\<close>

theorem None_short_circuits:
  "to_base_type L self PNone = Inr PNone \<and> from_base_type L self PNone = Inr PNone"
  by (simp add: to_base_type_def from_base_type_def)

text \<open>
  Claim C3. The code does not do what the claim says for a compressed blob: on a
  \<open>BlobProperty\<close> with \<open>compressed=True\<close>, \<open>to_base_type\<close> of every byte string \<open>b\<close> raises
  \<open>NameError\<close> (the module calls \<open>zlib.compress\<close> and never imports \<open>zlib\<close>), and so does
  \<open>from_base_type\<close>; no value comes back from the round trip.
\<close>

theorem compressed_blob_conversion_raises:
  "to_base_type L (self\<lparr>p_class := BlobProperty, p_compressed := True\<rparr>) (PStr b)
     = Inl NameError
   \<and> from_base_type L (self\<lparr>p_class := BlobProperty, p_compressed := True\<rparr>) (PStr b)
     = Inl NameError"
  by (simp add: to_base_type_def from_base_type_def priv_to_base_type_def
      priv_from_base_type_def Blob_to_base_type_def Blob_from_base_type_def zlib_unbound)

section \<open>Attribute access\<close>



section \<open>Automatic timestamps\<close>

text \<open>
  Claim C5. The code does not do what the claim says. On a fresh \<open>Event\<close>, where every
  field is absent:
  \<^item> \<open>started\<close> is a \<open>DateTimeProperty\<close> with \<open>auto_now_add=True\<close> stored under the name
    \<open>'start_ts'\<close>. Its hook raises \<open>AttributeError\<close> and sets nothing: it passes the
    storage name to \<open>getattr\<close>, and the instance has no attribute of that name
    (\<open>__get__\<close>, \<open>__set__\<close> and \<open>from_entity\<close> use the storage name as a dict key).
  \<^item> \<open>logged\<close> is a \<open>DateTimeProperty\<close> with \<open>auto_now_add=True\<close> and \<open>required=True\<close>.
    Its field reads \<open>None\<close>, and the hook raises \<open>AssertionError\<close> instead of setting
    it: the assignment goes through \<open>validate\<close>, whose required-ness assertion refuses
    every present value.
  \<^item> \<open>alarm\<close> is a \<open>TimeProperty\<close>, which inherits the hook, with \<open>auto_now=True\<close>. The
    hook raises \<open>AssertionError\<close> instead of overwriting the field: \<open>TimeProperty\<close>
    inherits \<open>DateTimeProperty._now\<close>, whose \<open>datetime\<close> its own \<open>_validate\<close> refuses
    (\<open>DateProperty\<close> overrides \<open>_now\<close>).
\<close>

theorem prepare_for_put_raises:
  "p_class started_prop = DateTimeProperty \<and> p_auto_now_add started_prop
   \<and> map_of (cls_dict (m_class new_event)) ''started'' = Some started_prop
   \<and> Property_get example_libs started_prop new_event = Inr PNone
   \<and> priv_prepare_for_put example_libs started_prop (0, new_event) = Inl AttributeError
   \<and> p_class logged_prop = DateTimeProperty \<and> p_auto_now_add logged_prop
   \<and> map_of (cls_dict (m_class new_event)) ''logged'' = Some logged_prop
   \<and> getattr example_libs new_event ''logged'' = Inr PNone
   \<and> priv_prepare_for_put example_libs logged_prop (0, new_event) = Inl AssertionError
   \<and> p_class alarm_prop = TimeProperty \<and> p_auto_now alarm_prop
   \<and> map_of (cls_dict (m_class new_event)) ''alarm'' = Some alarm_prop
   \<and> priv_prepare_for_put example_libs alarm_prop (0, new_event) = Inl AssertionError"
  by (simp add: Event_eq new_event_def getattr_def Property_get_def dict_get_def
      from_base_type_def priv_prepare_for_put_def auto_stamp_def setattr_def Property_set_def
      validate_def priv_validate_def priv_now_def example_libs_def started_prop_def
      logged_prop_def alarm_prop_def created_prop_def)

text \<open>
  Where the hook stamps. Let \<open>self\<close> be a \<open>DateTimeProperty\<close> (the class itself) that is
  declared on the instance's class under the attribute name equal to its storage name
  \<open>n\<close>, has no choice set and no custom validator, and is not required. Then
  \<^item> with \<open>auto_now_add\<close> set and \<open>auto_now\<close> not set, if the field reads \<open>None\<close> the hook
    stores the current clock reading in it and changes nothing else;
  \<^item> with \<open>auto_now\<close> not set, if the field reads a value other than \<open>None\<close> the hook
    leaves the instance as it is and does not read the clock;
  \<^item> with \<open>auto_now\<close> set, the hook stores the latest clock reading whatever the field
    held (the second of two readings when \<open>auto_now_add\<close> filled an empty field first);
  \<^item> a field stamped with a timestamp reads back as that timestamp, which is not \<open>None\<close>.
\<close>

lemma prepare_for_put_auto_stamps:
  assumes "p_class self = DateTimeProperty"
    and "p_name self = Some n"
    and "map_of (cls_dict (m_class obj)) n = Some self"
    and "p_choices self = None"
    and "\<not> p_required self"
    and "p_validator self = None"
  shows "(p_auto_now_add self \<and> \<not> p_auto_now self \<and> getattr L obj n = Inr PNone \<longrightarrow>
            priv_prepare_for_put L self (t, obj)
              = Inr (Suc t, stamped obj n (PDateTime (utcnow L t))))
       \<and> (\<not> p_auto_now self \<and> getattr L obj n \<noteq> Inr PNone \<longrightarrow>
            priv_prepare_for_put L self (t, obj) = Inr (t, obj))
       \<and> (p_auto_now self \<longrightarrow>
            priv_prepare_for_put L self (t, obj)
              = (if p_auto_now_add self \<and> getattr L obj n = Inr PNone
                 then Inr (Suc (Suc t), stamped obj n (PDateTime (utcnow L (Suc t))))
                 else Inr (Suc t, stamped obj n (PDateTime (utcnow L t)))))
       \<and> getattr L (stamped obj n (PDateTime ts)) n = Inr (PDateTime ts)"
proof -
  note g = getattr_plain_datetime [OF assms(1,2,3)]
  note st = auto_stamp_plain_datetime [OF assms(1,4,5,6,2)]
  have st0: "auto_stamp L self n (t, obj) = Inr (Suc t, stamped obj n (PDateTime (utcnow L t)))"
    using assms(3) by (rule st)
  have st1: "auto_stamp L self n (Suc t, stamped obj n a)
             = Inr (Suc (Suc t), stamped obj n (PDateTime (utcnow L (Suc t))))" for a
    using st [of "stamped obj n a" L "Suc t"] assms(3) by (simp add: stamped_class stamped_twice)
  have a: "p_auto_now_add self \<and> \<not> p_auto_now self \<and> getattr L obj n = Inr PNone \<longrightarrow>
            priv_prepare_for_put L self (t, obj)
              = Inr (Suc t, stamped obj n (PDateTime (utcnow L t)))"
    using assms(1,2) by (simp add: priv_prepare_for_put_def st0)
  have b: "\<not> p_auto_now self \<and> getattr L obj n \<noteq> Inr PNone \<longrightarrow>
            priv_prepare_for_put L self (t, obj) = Inr (t, obj)"
    using assms(1,2) by (simp add: priv_prepare_for_put_def g)
  have c: "p_auto_now self \<longrightarrow>
            priv_prepare_for_put L self (t, obj)
              = (if p_auto_now_add self \<and> getattr L obj n = Inr PNone
                 then Inr (Suc (Suc t), stamped obj n (PDateTime (utcnow L (Suc t))))
                 else Inr (Suc t, stamped obj n (PDateTime (utcnow L t))))"
    using assms(1,2) by (simp add: priv_prepare_for_put_def g st0 st1)
  have d: "getattr L (stamped obj n (PDateTime ts)) n = Inr (PDateTime ts)"
    using getattr_plain_datetime [OF assms(1,2), of "stamped obj n (PDateTime ts)" L] assms(3)
    by (simp add: stamped_class stamped_get)
  from a b c d show ?thesis by blast
qed

text \<open>
  On a fresh \<open>Article\<close> the hook of \<open>created\<close> fills the empty field with the first clock
  reading; run again on the result it changes nothing; the hook of \<open>updated\<close> overwrites
  a field that holds 1999-12-31 with the clock reading.
\<close>

lemma prepare_for_put_auto_stamps_example:
  "getattr example_libs new_article ''created'' = Inr PNone
   \<and> priv_prepare_for_put example_libs created_prop (0, new_article)
       = Inr (1, stamped new_article ''created'' (PDateTime (DateTime 2014 6 1 12 0 0 0)))
   \<and> priv_prepare_for_put example_libs created_prop
         (1, stamped new_article ''created'' (PDateTime (DateTime 2014 6 1 12 0 0 0)))
       = Inr (1, stamped new_article ''created'' (PDateTime (DateTime 2014 6 1 12 0 0 0)))
   \<and> priv_prepare_for_put example_libs updated_prop
         (1, stamped new_article ''updated'' (PDateTime (DateTime 1999 12 31 0 0 0 0)))
       = Inr (2, stamped new_article ''updated'' (PDateTime (DateTime 2014 6 1 12 0 1 0)))"
proof -
  let ?L = example_libs
  let ?t0 = "PDateTime (DateTime 2014 6 1 12 0 0 0)"
  let ?old = "PDateTime (DateTime 1999 12 31 0 0 0 0)"
  have hc: "p_class created_prop = DateTimeProperty" "p_name created_prop = Some ''created''"
    "p_choices created_prop = None" "\<not> p_required created_prop"
    "p_validator created_prop = None" "p_auto_now_add created_prop"
    "\<not> p_auto_now created_prop"
    by (simp_all add: created_prop_def)
  have hu: "p_class updated_prop = DateTimeProperty" "p_name updated_prop = Some ''updated''"
    "p_choices updated_prop = None" "\<not> p_required updated_prop"
    "p_validator updated_prop = None" "\<not> p_auto_now_add updated_prop"
    "p_auto_now updated_prop"
    by (simp_all add: updated_prop_def created_prop_def)
  have mc: "map_of (cls_dict (m_class new_article)) ''created'' = Some created_prop"
    by (rule cls_dict_Article)
  have mc': "map_of (cls_dict (m_class (stamped new_article ''created'' ?t0))) ''created''
             = Some created_prop"
    by (simp add: stamped_class cls_dict_Article)
  have mu: "map_of (cls_dict (m_class (stamped new_article ''updated'' ?old))) ''updated''
             = Some updated_prop"
    by (simp add: stamped_class cls_dict_Article)
  have now: "utcnow ?L 0 = DateTime 2014 6 1 12 0 0 0" "utcnow ?L (Suc 0) = DateTime 2014 6 1 12 0 1 0"
    by (simp_all add: example_libs_def)
  have "dict_get (m_items new_article) (Some ''created'') = PNone"
    by (simp add: dict_get_def new_article_def)
  with getattr_plain_datetime [OF hc(1,2) mc, of ?L]
  have g0: "getattr ?L new_article ''created'' = Inr PNone"
    by simp
  have g1: "getattr ?L (stamped new_article ''created'' ?t0) ''created'' \<noteq> Inr PNone"
    by (simp add: getattr_plain_datetime [OF hc(1,2) mc'] stamped_get)
  have w1: "priv_prepare_for_put ?L created_prop (0, new_article)
            = Inr (1, stamped new_article ''created'' ?t0)"
    using prepare_for_put_auto_stamps [OF hc(1,2) mc hc(3,4,5), where L = ?L and t = 0]
      hc(6,7) g0 now by simp
  have w2: "priv_prepare_for_put ?L created_prop (1, stamped new_article ''created'' ?t0)
            = Inr (1, stamped new_article ''created'' ?t0)"
    using prepare_for_put_auto_stamps [OF hc(1,2) mc' hc(3,4,5), where L = ?L and t = 1]
      hc(7) g1 by simp
  have w3: "priv_prepare_for_put ?L updated_prop (1, stamped new_article ''updated'' ?old)
            = Inr (2, stamped new_article ''updated'' (PDateTime (DateTime 2014 6 1 12 0 1 0)))"
    using prepare_for_put_auto_stamps [OF hu(1,2) mu hu(3,4,5), where L = ?L and t = 1]
      hu(6,7) now by (simp add: stamped_twice)
  from g0 w1 w2 w3 show ?thesis by simp
qed

text \<open>
  A choice set constrains the stamp as it constrains any assignment. \<open>launch\<close> is a
  \<open>DateTimeProperty\<close> with \<open>auto_now_add=True\<close> and the choice set
  \<open>[datetime(2000, 1, 1)]\<close>. On a fresh \<open>Article\<close> its field reads \<open>None\<close>, and the hook
  raises \<open>AssertionError\<close>: it assigns the clock reading through \<open>__set__\<close>, whose
  \<open>validate\<close> refuses a value outside the choice set.
\<close>

lemma auto_now_add_choices_raises:
  "p_class launch_prop = DateTimeProperty \<and> p_auto_now_add launch_prop
   \<and> map_of (cls_dict (m_class new_article)) ''launch'' = Some launch_prop
   \<and> getattr example_libs new_article ''launch'' = Inr PNone
   \<and> priv_prepare_for_put example_libs launch_prop (0, new_article) = Inl AssertionError"
  by (simp add: Article_eq new_article_def getattr_def Property_get_def dict_get_def
      from_base_type_def priv_prepare_for_put_def auto_stamp_def setattr_def Property_set_def
      validate_def py_in_def py_eq_def priv_now_def example_libs_def launch_prop_def
      created_prop_def)

section \<open>Batch retrieval\<close>

text \<open>
  Claim C2. The code does not do what the claim says. When the fetch resolves none of
  the keys (every slot \<open>None\<close>) and there is at least one key, the module-level
  \<open>get_multi\<close> raises \<open>AttributeError\<close> instead of returning one \<open>None\<close> per key: after
  \<open>results.append(None)\<close> the loop body goes on to \<open>entity.key()\<close>.
\<close>

theorem get_multi_unresolved_key:
  "get_multi L (X\<lparr>dataset := Some (\<lambda>keys. map (\<lambda>k. None) keys)\<rparr>) kind_map (k # keys)
     = Inl AttributeError"
  by (simp add: get_multi_def)

text \<open>The classmethod \<open>Model.get_multi\<close>, whose loop has the \<open>else\<close>, returns one
  \<open>None\<close> per identifier on the same fetch.\<close>

lemma Model_get_multi_loop_unresolved:
  "Model_get_multi_loop L cls (map (\<lambda>k. None) ks) results = Inr (results @ map (\<lambda>k. None) ks)"
  by (induction ks arbitrary: results) simp_all

lemma Model_get_multi_unresolved:
  "Model_get_multi L (X\<lparr>dataset := Some (\<lambda>keys. map (\<lambda>k. None) keys)\<rparr>) cls ids
     = Inr (map (\<lambda>i. None) ids)"
  by (simp add: Model_get_multi_def Model_get_multi_loop_unresolved comp_def)

section \<open>Further properties of the code\<close>

text \<open>
  The per-kind \<open>Model.get_multi\<close> preserves positions. With the dataset bound, it returns
  \<open>out\<close> exactly when \<open>out\<close> has one slot per entity the fetch returned, in order, each
  slot absent for an absent entity and otherwise the instance \<open>from_entity\<close> builds; it
  raises only when \<open>from_entity\<close> does.
\<close>

theorem Model_get_multi_positions:
  assumes "dataset X = Some fetch"
  shows "Model_get_multi L X cls ids = Inr out
     \<longleftrightarrow> list_all2 (slot_matches L cls)
           (fetch (map (\<lambda>i. Key_from_path X (cls_name cls) i) ids)) out"
  using assms by (simp add: Model_get_multi_def Model_get_multi_loop_iff)

theorem Model_get_multi_positions_witness:
  "Model_get_multi example_libs (example_store [None, Some example_entity]) Article
     [PInt 3, PInt 7]
   = Inr [None, Some example_obj]"
proof -
  have d: "dataset (example_store [None, Some example_entity])
           = Some (\<lambda>keys. [None, Some example_entity])"
    by (simp add: example_store_def)
  have m: "list_all2 (slot_matches example_libs Article) [None, Some example_entity]
             [None, Some example_obj]"
    by (simp add: slot_matches_None slot_matches_Some from_entity_example)
  from m Model_get_multi_positions [OF d, of example_libs Article "[PInt 3, PInt 7]"
      "[None, Some example_obj]"]
  show ?thesis by simp
qed

text \<open>
  The module-level \<open>get_multi\<close> on resolved keys. With the dataset bound, it returns
  \<open>out\<close> exactly when every fetched entity is present with a registered kind and \<open>out\<close>
  holds, in order, the instance of the registered class built from each entity.
\<close>

theorem get_multi_typed_positions:
  assumes "dataset X = Some fetch"
  shows "get_multi L X kind_map keys = Inr out
     \<longleftrightarrow> list_all2 (typed_slot L X kind_map) (fetch keys) out"
  using assms by (simp add: get_multi_def get_multi_loop_iff)

theorem get_multi_typed_positions_witness:
  "get_multi example_libs (example_store [Some example_entity]) [''Article'' \<mapsto> Article]
     [e_key example_entity]
   = Inr [Some example_obj]
   \<and> m_class example_obj = Article"
proof -
  have d: "dataset (example_store [Some example_entity]) = Some (\<lambda>keys. [Some example_entity])"
    by (simp add: example_store_def)
  have k: "Key_kind (example_store [Some example_entity]) (e_key example_entity) = ''Article''"
    by (simp add: example_store_def example_kind_def example_entity_def)
  have c: "m_class example_obj = Article"
    by (simp add: example_obj_def)
  have m: "list_all2 (typed_slot example_libs (example_store [Some example_entity])
              [''Article'' \<mapsto> Article]) [Some example_entity] [Some example_obj]"
    by (simp add: typed_slot_def k from_entity_example c)
  from m c get_multi_typed_positions [OF d, of example_libs "[''Article'' \<mapsto> Article]"
      "[e_key example_entity]" "[Some example_obj]"]
  show ?thesis by simp
qed

text \<open>
  A fetched entity whose kind is not in the kind map makes the module-level
  \<open>get_multi\<close> raise \<open>KeyError\<close> (the spec's UnknownKindError), whatever follows it.
\<close>

theorem get_multi_unknown_kind:
  "get_multi L (X\<lparr>dataset := Some (\<lambda>keys. Some ent # slots)\<rparr>)
     (kind_map(Key_kind X (e_key ent) := None)) keys
   = Inl KeyError"
  by (simp add: get_multi_def lookup_model_def)

text \<open>
  An identifier that is neither an integer nor a string (\<open>None\<close>, a float, a date-time)
  makes \<open>Key\<close> raise \<open>SyntaxError\<close> (the spec's InvalidIdentifierError), and a non-empty
  \<open>urlsafe\<close> argument makes it raise \<open>NotImplementedError\<close> before anything else.
\<close>

theorem Key_init_bad_identifier:
  "Key_init [k, PNone] (positional_only app ns) = Inl SyntaxError
   \<and> Key_init [k, PFloat r] (positional_only app ns) = Inl SyntaxError
   \<and> Key_init [k, PDateTime d] (positional_only app ns) = Inl SyntaxError"
  by (simp add: Key_init_def positional_only_def flat_pairs_def range_step2_def
      isinstance_basestring_def)

theorem Key_init_urlsafe:
  "Key_init args (kwargs\<lparr>kw_urlsafe := Some (c # cs)\<rparr>) = Inl NotImplementedError"
  by (simp add: Key_init_def)

text \<open>
  Where the round-trip law holds. On \<open>Property\<close>, \<open>BooleanProperty\<close>, \<open>IntegerProperty\<close>,
  \<open>FloatProperty\<close>, \<open>DateTimeProperty\<close> and an uncompressed \<open>BlobProperty\<close> both
  conversions return their argument, so every value comes back; a \<open>unicode\<close> comes back
  from \<open>TextProperty\<close> and \<open>StringProperty\<close>, a \<open>date\<close> from \<open>DateProperty\<close> and a (naive)
  \<open>time\<close> from \<open>TimeProperty\<close>.
\<close>

theorem round_trip_where_it_holds:
  "round_trip L (self\<lparr>p_class := Property\<rparr>) v = Inr v
   \<and> round_trip L (self\<lparr>p_class := BooleanProperty\<rparr>) v = Inr v
   \<and> round_trip L (self\<lparr>p_class := IntegerProperty\<rparr>) v = Inr v
   \<and> round_trip L (self\<lparr>p_class := FloatProperty\<rparr>) v = Inr v
   \<and> round_trip L (self\<lparr>p_class := DateTimeProperty\<rparr>) v = Inr v
   \<and> round_trip L (self\<lparr>p_class := BlobProperty, p_compressed := False\<rparr>) v = Inr v
   \<and> round_trip L (self\<lparr>p_class := TextProperty\<rparr>) (PUnicode u) = Inr (PUnicode u)
   \<and> round_trip L (self\<lparr>p_class := StringProperty\<rparr>) (PUnicode u) = Inr (PUnicode u)
   \<and> round_trip L (self\<lparr>p_class := DateProperty\<rparr>) (PDate d) = Inr (PDate d)
   \<and> round_trip L (self\<lparr>p_class := TimeProperty\<rparr>) (PTime t) = Inr (PTime t)"
proof -
  have d: "round_trip L (self\<lparr>p_class := DateProperty\<rparr>) (PDate d) = Inr (PDate d)"
    by (cases d)
      (simp add: round_trip_def to_base_type_def from_base_type_def priv_to_base_type_def
        priv_from_base_type_def)
  have t: "round_trip L (self\<lparr>p_class := TimeProperty\<rparr>) (PTime t) = Inr (PTime t)"
    by (cases t)
      (simp add: round_trip_def to_base_type_def from_base_type_def priv_to_base_type_def
        priv_from_base_type_def)
  have rest: "round_trip L (self\<lparr>p_class := Property\<rparr>) v = Inr v"
    "round_trip L (self\<lparr>p_class := BooleanProperty\<rparr>) v = Inr v"
    "round_trip L (self\<lparr>p_class := IntegerProperty\<rparr>) v = Inr v"
    "round_trip L (self\<lparr>p_class := FloatProperty\<rparr>) v = Inr v"
    "round_trip L (self\<lparr>p_class := DateTimeProperty\<rparr>) v = Inr v"
    "round_trip L (self\<lparr>p_class := BlobProperty, p_compressed := False\<rparr>) v = Inr v"
    "round_trip L (self\<lparr>p_class := TextProperty\<rparr>) (PUnicode u) = Inr (PUnicode u)"
    "round_trip L (self\<lparr>p_class := StringProperty\<rparr>) (PUnicode u) = Inr (PUnicode u)"
    by (simp_all add: round_trip_def to_base_type_def from_base_type_def priv_to_base_type_def
        priv_from_base_type_def Blob_to_base_type_def Blob_from_base_type_def)
  from d t rest show ?thesis by simp
qed

end
